theory Spec2Isabelle
  imports Main "HOL-Library.AList"
begin

section \<open>JavaScript values\<close>

text \<open>
  The values the parsers handle: \<open>undefined\<close>, numbers (integers are enough here),
  strings, arrays, plain objects and the built-in objects of the language. A plain object
  is the list of its own properties in insertion order, each key once; the properties
  below read objects by key only. \<open>JObj\<close> is a plain object whose prototype is
  \<open>Object.prototype\<close>, as an object literal makes it; \<open>JObjA xs ps\<close> is a plain object
  with own properties \<open>ps\<close> whose prototype has become the array \<open>xs\<close>. \<open>JBuiltin\<close>
  is a built-in object, named by its path: \<open>Object.prototype\<close> itself, or a function such
  as \<open>Object.prototype.toString\<close>.
\<close>

datatype jsval =
    JUndefined
  | JNum int
  | JStr string
  | JArr "jsval list"
  | JObj "(string \<times> jsval) list"
  | JObjA "jsval list" "(string \<times> jsval) list"
  | JBuiltin string

type_synonym js_object = "(string \<times> jsval) list"

text \<open>\<open>ToBoolean\<close>: the empty string, zero and \<open>undefined\<close> are falsy; every array,
  object and function is truthy.\<close>

fun truthy :: "jsval \<Rightarrow> bool" where
  "truthy JUndefined = False"
| "truthy (JNum n) = (n \<noteq> 0)"
| "truthy (JStr s) = (s \<noteq> [])"
| "truthy (JArr xs) = True"
| "truthy (JObj ps) = True"
| "truthy (JObjA xs ps) = True"
| "truthy (JBuiltin n) = True"

text \<open>\<open>Array.isArray(v)\<close>.\<close>

fun isArray :: "jsval \<Rightarrow> bool" where
  "isArray (JArr xs) = True"
| "isArray v = False"

text \<open>\<open>v instanceof Object\<close>: true of arrays, objects and functions, false of primitives
  and of \<open>Object.prototype\<close>, which has no prototype.\<close>

fun instanceofObject :: "jsval \<Rightarrow> bool" where
  "instanceofObject (JArr xs) = True"
| "instanceofObject (JObj ps) = True"
| "instanceofObject (JObjA xs ps) = True"
| "instanceofObject (JBuiltin n) = (n \<noteq> ''Object.prototype'')"
| "instanceofObject v = False"

subsection \<open>Reading a property\<close>

text \<open>
  \<open>obj[key]\<close> looks for an own property first and then along the prototype chain. The
  string-keyed members of \<open>Object.prototype\<close> and of \<open>Array.prototype\<close> are those of
  ECMAScript 2023 (with its annex B); all of them are functions, except the accessor
  \<open>__proto__\<close>, which answers the prototype of the object it is read from.
\<close>

definition object_prototype_keys :: "string list" where
  "object_prototype_keys =
     [''constructor'', ''hasOwnProperty'', ''isPrototypeOf'', ''propertyIsEnumerable'',
      ''toLocaleString'', ''toString'', ''valueOf'', ''__defineGetter__'',
      ''__defineSetter__'', ''__lookupGetter__'', ''__lookupSetter__'']"

definition array_prototype_keys :: "string list" where
  "array_prototype_keys =
     [''at'', ''concat'', ''constructor'', ''copyWithin'', ''entries'', ''every'', ''fill'',
      ''filter'', ''find'', ''findIndex'', ''findLast'', ''findLastIndex'', ''flat'',
      ''flatMap'', ''forEach'', ''includes'', ''indexOf'', ''join'', ''keys'',
      ''lastIndexOf'', ''map'', ''pop'', ''push'', ''reduce'', ''reduceRight'', ''reverse'',
      ''shift'', ''slice'', ''some'', ''sort'', ''splice'', ''toLocaleString'',
      ''toReversed'', ''toSorted'', ''toSpliced'', ''toString'', ''unshift'', ''values'',
      ''with'']"

definition Object_prototype :: "string \<Rightarrow> jsval" where
  "Object_prototype key =
     (if key \<in> set object_prototype_keys then JBuiltin (''Object.prototype.'' @ key)
      else JUndefined)"

definition Array_prototype :: "string \<Rightarrow> jsval" where
  "Array_prototype key =
     (if key \<in> set array_prototype_keys then JBuiltin (''Array.prototype.'' @ key)
      else Object_prototype key)"

text \<open>The own properties of an array are its length and its elements, under the decimal
  numerals without leading zeros.\<close>

fun decimal :: "string \<Rightarrow> int \<Rightarrow> int option" where
  "decimal [] n = Some n"
| "decimal (c # cs) n =
     (let d = (of_char c :: nat) in
      if 48 \<le> d \<and> d \<le> 57 then decimal cs (10 * n + int (d - 48)) else None)"

definition array_index :: "string \<Rightarrow> nat option" where
  "array_index key =
     (if key = [] \<or> (hd key = CHR ''0'' \<and> key \<noteq> ''0'') then None
      else map_option nat (decimal key 0))"

definition array_get :: "jsval list \<Rightarrow> string \<Rightarrow> jsval" where
  "array_get xs key =
     (if key = ''length'' then JNum (int (length xs))
      else case array_index key of
             Some i \<Rightarrow> if i < length xs then xs ! i else Array_prototype key
           | None \<Rightarrow> Array_prototype key)"

text \<open>The parsers read properties of plain objects only.\<close>

fun get :: "jsval \<Rightarrow> string \<Rightarrow> jsval" where
  "get (JObj ps) key =
     (case map_of ps key of
        Some v \<Rightarrow> v
      | None \<Rightarrow> if key = ''__proto__'' then JBuiltin ''Object.prototype''
                else Object_prototype key)"
| "get (JObjA xs ps) key =
     (case map_of ps key of
        Some v \<Rightarrow> v
      | None \<Rightarrow> if key = ''__proto__'' then JArr xs else array_get xs key)"
| "get v key = JUndefined"

definition get_prop :: "js_object \<Rightarrow> string \<Rightarrow> jsval" where
  "get_prop obj key = get (JObj obj) key"

subsection \<open>Writing a property\<close>

text \<open>Writing an own property: an existing key keeps its position, a new key is
  appended.\<close>

definition set_prop :: "js_object \<Rightarrow> string \<Rightarrow> jsval \<Rightarrow> js_object" where
  "set_prop obj key v = AList.update key v obj"

text \<open>
  \<open>obj[key] = v\<close> on a plain object, for the strings and arrays the parsers assign. The
  inherited members are writable, so the assignment makes an own property; only the key
  \<open>__proto__\<close> runs the setter of \<open>Object.prototype\<close>, which makes an array the new
  prototype and ignores a string.
\<close>

fun assign :: "jsval \<Rightarrow> string \<Rightarrow> jsval \<Rightarrow> jsval" where
  "assign (JObj ps) key v =
     (if key = ''__proto__'' \<and> map_of ps key = None
      then (case v of JArr xs \<Rightarrow> JObjA xs ps | _ \<Rightarrow> JObj ps)
      else JObj (set_prop ps key v))"
| "assign (JObjA ys ps) key v =
     (if key = ''__proto__'' \<and> map_of ps key = None
      then (case v of JArr xs \<Rightarrow> JObjA xs ps | _ \<Rightarrow> JObjA ys ps)
      else JObjA ys (set_prop ps key v))"
| "assign obj key v = obj"

text \<open>\<open>current.push(value)\<close> on an array.\<close>

fun push :: "jsval \<Rightarrow> jsval \<Rightarrow> jsval" where
  "push (JArr xs) v = JArr (xs @ [v])"
| "push c v = c"

text \<open>
  \<open>obj[key].push(v)\<close>, for \<open>obj[key]\<close> an array: the array is changed in place, where
  \<open>obj[key]\<close> found it. That is an own property, or the prototype array itself (under
  \<open>__proto__\<close>), or an element of the prototype array; no member of
  \<open>Object.prototype\<close> or \<open>Array.prototype\<close> is an array.
\<close>

fun push_at :: "jsval \<Rightarrow> string \<Rightarrow> jsval \<Rightarrow> jsval" where
  "push_at (JObj ps) key v =
     (case map_of ps key of
        Some c \<Rightarrow> JObj (set_prop ps key (push c v))
      | None \<Rightarrow> JObj ps)"
| "push_at (JObjA xs ps) key v =
     (case map_of ps key of
        Some c \<Rightarrow> JObjA xs (set_prop ps key (push c v))
      | None \<Rightarrow>
          if key = ''__proto__'' then JObjA (xs @ [v]) ps
          else case array_index key of
                 Some i \<Rightarrow> if i < length xs then JObjA (xs[i := push (xs ! i) v]) ps
                           else JObjA xs ps
               | None \<Rightarrow> JObjA xs ps)"
| "push_at obj key v = obj"

text \<open>The own properties of an object.\<close>

fun own_properties :: "jsval \<Rightarrow> js_object" where
  "own_properties (JObj ps) = ps"
| "own_properties (JObjA xs ps) = ps"
| "own_properties v = []"

section \<open>Inputs of the parsers\<close>

text \<open>A \<open>URLSearchParams\<close> is the list of the key/value pairs it iterates, in source
  order. A \<open>FormData\<close> is the list of its entries; an entry value is a string or a file
  (kept by its name).\<close>

type_synonym url_search_params = "(string \<times> string) list"

datatype form_entry = EntryString string | EntryFile string

type_synonym form_data = "(string \<times> form_entry) list"

text \<open>What a parser raises or hands back as a failure: \<open>error(status, body)\<close> and
  \<open>fail(status, data)\<close> of the web framework, and a \<open>TypeError\<close> of the runtime. The
  text of a \<open>TypeError\<close> is the runtime's; only its cause is kept.\<close>

datatype type_error = BodyUnusable | BodyNotFormData | NotAFunction

datatype failure =
    HttpError (status: nat) (payload: jsval)
  | ActionFailure (status: nat) (payload: jsval)
  | TypeError type_error

text \<open>
  The request of an event. \<open>request.formData()\<close> reads the body and decodes it as form
  data; \<open>decoded\<close> is what the decoding yields, the form data or an error. A request has
  no body, or a body not yet read, or a body already read. Reading consumes a body, and
  a body already read cannot be read again; a request without a body is decoded from
  the empty input and stays as it is.
\<close>

datatype body_state = NoBody | Unread | Read

record request =
  decoded :: "failure + form_data"
  body :: body_state

definition bodyUsed :: "request \<Rightarrow> bool" where
  "bodyUsed r = (body r = Read)"

definition formData :: "request \<Rightarrow> (failure + form_data) \<times> request" where
  "formData r =
     (case body r of
        Read \<Rightarrow> (Inl (TypeError BodyUnusable), r)
      | Unread \<Rightarrow> (decoded r, r\<lparr>body := Read\<rparr>)
      | NoBody \<Rightarrow> (decoded r, r))"

record request_event =
  url_searchParams :: url_search_params
  request :: request

datatype search_source = URLSearchParams url_search_params | SearchEvent request_event

datatype form_source = FormData form_data | FormEvent request_event

section \<open>The schema library\<close>

text \<open>
  The validator is an external library. A schema instance is an object with the method
  \<open>safeParse\<close>, a function of the data. A validation error is an object with the method
  \<open>flatten\<close>, which returns an object with the attributes \<open>formErrors\<close> and
  \<open>fieldErrors\<close> or raises. The library's constructor \<open>z.object\<close> is the attribute
  \<open>object\<close> of the library value \<open>z\<close>, a parameter of every parser.
\<close>

record flattened_error =
  formErrors :: jsval
  fieldErrors :: jsval

datatype zod_error = ZodError (flatten: "failure + flattened_error")

datatype safe_parse_return = SafeParseSuccess jsval | SafeParseError zod_error

datatype zod_type = ZodType (safeParse: "jsval \<Rightarrow> safe_parse_return")

datatype schema = ZodTypeAny zod_type | ZodRawShape "(string \<times> zod_type) list"

record zod =
  object :: "(string \<times> zod_type) list \<Rightarrow> zod_type"

section \<open>The parsers\<close>

text \<open>Every public operation is given with its source as the call leaves it, the
  second component of its result.\<close>

subsection \<open>Normalizing query strings and form fields\<close>

text \<open>
  \<open>getSearchParams\<close> starts from the empty object literal and runs, for each pair of the
  source,
  \<^verbatim>\<open>
  const current = params[key];
  if (current && Array.isArray(current)) {
      current.push(value);
  } else {
      params[key] = current ? [current, value] : value;
  }
  \<close>
  The function \<open>collect\<close> is this body, the fold is the loop.
\<close>

fun collect :: "jsval \<Rightarrow> string \<times> string \<Rightarrow> jsval" where
  "collect ps (key, value) =
     (let current = get ps key in
      if truthy current \<and> isArray current
      then push_at ps key (JStr value)
      else assign ps key (if truthy current then JArr [current, JStr value] else JStr value))"

fun searchParams_of :: "search_source \<Rightarrow> url_search_params" where
  "searchParams_of (URLSearchParams sp) = sp"
| "searchParams_of (SearchEvent ev) = url_searchParams ev"

definition getSearchParams :: "search_source \<Rightarrow> jsval" where
  "getSearchParams src = foldl collect (JObj []) (searchParams_of src)"

text \<open>\<open>new URLSearchParams(formData)\<close> takes the entries as pairs and converts each value
  to a string: a file becomes \<open>[object File]\<close>.\<close>

fun entry_string :: "form_entry \<Rightarrow> string" where
  "entry_string (EntryString s) = s"
| "entry_string (EntryFile n) = ''[object File]''"

definition URLSearchParams_of_form :: "form_data \<Rightarrow> url_search_params" where
  "URLSearchParams_of_form fd = map (\<lambda>(k, v). (k, entry_string v)) fd"

text \<open>
  \<^verbatim>\<open>
  const formData = data instanceof FormData ? data : await data.request.formData();
  return getSearchParams(new URLSearchParams(formData));
  \<close>
  The body read of a request wrapper is awaited, and it may raise.
\<close>

fun getFormData :: "form_source \<Rightarrow> (failure + jsval) \<times> form_source" where
  "getFormData (FormData fd) =
     (Inr (getSearchParams (URLSearchParams (URLSearchParams_of_form fd))), FormData fd)"
| "getFormData (FormEvent ev) =
     (case formData (request ev) of
        (Inl e, r) \<Rightarrow> (Inl e, FormEvent (ev\<lparr>request := r\<rparr>))
      | (Inr fd, r) \<Rightarrow>
          (Inr (getSearchParams (URLSearchParams (URLSearchParams_of_form fd))),
           FormEvent (ev\<lparr>request := r\<rparr>)))"

subsection \<open>Schema adapter and result shaping\<close>

text \<open>\<open>schema instanceof ZodType ? schema : z.object(schema)\<close>.\<close>

fun getSchema :: "zod \<Rightarrow> schema \<Rightarrow> zod_type" where
  "getSchema z (ZodTypeAny t) = t"
| "getSchema z (ZodRawShape shape) = object z shape"

text \<open>The safe parse returns the validator's success as it is, and on a failure the
  object \<open>{success: false, errors, response: fail(400, {errors})}\<close> with
  \<open>errors = result.error.flatten().fieldErrors\<close>. The strict parse returns the parsed
  data or throws \<open>error(400, {message: 'Parsing Failed', errors})\<close>. What \<open>flatten\<close>
  raises, both raise.\<close>

datatype safe_parse_data =
    SafeSuccess jsval
  | SafeFailure (errors: jsval) (response: failure)

definition parseSafe :: "zod \<Rightarrow> jsval \<Rightarrow> schema \<Rightarrow> failure + safe_parse_data" where
  "parseSafe z data schema =
     (case safeParse (getSchema z schema) data of
        SafeParseError e \<Rightarrow>
          (case flatten e of
             Inl x \<Rightarrow> Inl x
           | Inr f \<Rightarrow>
               Inr (SafeFailure (fieldErrors f)
                     (ActionFailure 400 (JObj [(''errors'', fieldErrors f)]))))
      | SafeParseSuccess d \<Rightarrow> Inr (SafeSuccess d))"

definition parse :: "zod \<Rightarrow> jsval \<Rightarrow> schema \<Rightarrow> failure + jsval" where
  "parse z data schema =
     (case safeParse (getSchema z schema) data of
        SafeParseError e \<Rightarrow>
          (case flatten e of
             Inl x \<Rightarrow> Inl x
           | Inr f \<Rightarrow>
               Inl (HttpError 400
                     (JObj [(''message'', JStr ''Parsing Failed''),
                            (''errors'', fieldErrors f)])))
      | SafeParseSuccess d \<Rightarrow> Inr d)"

subsection \<open>The six operations\<close>

definition parseSearchParamsSafe ::
  "zod \<Rightarrow> search_source \<Rightarrow> schema \<Rightarrow> (failure + safe_parse_data) \<times> search_source" where
  "parseSearchParamsSafe z data schema = (parseSafe z (getSearchParams data) schema, data)"

definition parseSearchParams ::
  "zod \<Rightarrow> search_source \<Rightarrow> schema \<Rightarrow> (failure + jsval) \<times> search_source" where
  "parseSearchParams z data schema = (parse z (getSearchParams data) schema, data)"

definition parseFormDataSafe ::
  "zod \<Rightarrow> form_source \<Rightarrow> schema \<Rightarrow> (failure + safe_parse_data) \<times> form_source" where
  "parseFormDataSafe z data schema =
     (case getFormData data of
        (Inl e, src) \<Rightarrow> (Inl e, src)
      | (Inr fd, src) \<Rightarrow> (parseSafe z fd schema, src))"

definition parseFormData ::
  "zod \<Rightarrow> form_source \<Rightarrow> schema \<Rightarrow> (failure + jsval) \<times> form_source" where
  "parseFormData z data schema =
     (case getFormData data of
        (Inl e, src) \<Rightarrow> (Inl e, src)
      | (Inr fd, src) \<Rightarrow> (parse z fd schema, src))"

text \<open>Route parameters come as a plain mapping or as a request event; both are objects,
  told apart by \<open>data.params instanceof Object\<close>.\<close>

definition isRequestEvent :: "js_object \<Rightarrow> bool" where
  "isRequestEvent data = instanceofObject (get_prop data ''params'')"

text \<open>The value both route parsers validate, their local
  \<open>routeParams = isRequestEvent(data) ? data.params : data\<close>.\<close>

definition routeParams :: "js_object \<Rightarrow> jsval" where
  "routeParams data = (if isRequestEvent data then get_prop data ''params'' else JObj data)"

definition parseRouteParamsSafe ::
  "zod \<Rightarrow> js_object \<Rightarrow> schema \<Rightarrow> (failure + safe_parse_data) \<times> js_object" where
  "parseRouteParamsSafe z data schema = (parseSafe z (routeParams data) schema, data)"

definition parseRouteParams ::
  "zod \<Rightarrow> js_object \<Rightarrow> schema \<Rightarrow> (failure + jsval) \<times> js_object" where
  "parseRouteParams z data schema = (parse z (routeParams data) schema, data)"

subsection \<open>The earlier module\<close>

text \<open>The earlier version of the module differs in the result shaping only: the safe
  parse hands back the validator's own result, and the strict parse raises
  \<open>fail(400, {errors})\<close>.\<close>

definition parseSafe_v0 :: "zod \<Rightarrow> jsval \<Rightarrow> schema \<Rightarrow> safe_parse_return" where
  "parseSafe_v0 z data schema = safeParse (getSchema z schema) data"

definition parse_v0 :: "zod \<Rightarrow> jsval \<Rightarrow> schema \<Rightarrow> failure + jsval" where
  "parse_v0 z data schema =
     (case parseSafe_v0 z data schema of
        SafeParseError e \<Rightarrow>
          (case flatten e of
             Inl x \<Rightarrow> Inl x
           | Inr f \<Rightarrow> Inl (ActionFailure 400 (JObj [(''errors'', fieldErrors f)])))
      | SafeParseSuccess d \<Rightarrow> Inr d)"

definition parseSearchParams_v0 ::
  "zod \<Rightarrow> search_source \<Rightarrow> schema \<Rightarrow> (failure + jsval) \<times> search_source" where
  "parseSearchParams_v0 z data schema = (parse_v0 z (getSearchParams data) schema, data)"

section \<open>Vocabulary of the properties\<close>

text \<open>A value of the canonical mapping: a single string, or an array of at least two
  elements.\<close>

fun is_string :: "jsval \<Rightarrow> bool" where
  "is_string (JStr s) = True"
| "is_string v = False"

fun param_value :: "jsval \<Rightarrow> bool" where
  "param_value (JStr s) = True"
| "param_value (JArr xs) = (2 \<le> length xs)"
| "param_value v = False"

fun plain_object :: "jsval \<Rightarrow> bool" where
  "plain_object (JObj ps) = True"
| "plain_object (JObjA xs ps) = True"
| "plain_object v = False"

definition params_ok :: "jsval \<Rightarrow> bool" where
  "params_ok obj = (plain_object obj \<and> list_all (\<lambda>p. param_value (snd p)) (own_properties obj))"

text \<open>A key that names a member of \<open>Object.prototype\<close>.\<close>

definition inherited_key :: "string \<Rightarrow> bool" where
  "inherited_key k = (k = ''__proto__'' \<or> k \<in> set object_prototype_keys)"

text \<open>What one round of the loop stores under a key that is not inherited, given the
  value found there.\<close>

definition next_value :: "jsval \<Rightarrow> string \<Rightarrow> jsval" where
  "next_value current v =
     (if truthy current \<and> isArray current then push current (JStr v)
      else if truthy current then JArr [current, JStr v] else JStr v)"

text \<open>The values of a key in source order, and what the loop makes of them: leading empty
  values are overwritten, the rest is kept, as a single string when one value is left.\<close>

definition values_of :: "string \<Rightarrow> url_search_params \<Rightarrow> string list" where
  "values_of k sp = map snd (filter (\<lambda>p. fst p = k) sp)"

definition collapse :: "string list \<Rightarrow> jsval option" where
  "collapse vs =
     (if vs = [] then None
      else case dropWhile (\<lambda>v. v = []) vs of
             [] \<Rightarrow> Some (JStr [])
           | [w] \<Rightarrow> Some (JStr w)
           | ws \<Rightarrow> Some (JArr (map JStr ws)))"

text \<open>A route-parameter mapping: every value is a string or \<open>undefined\<close>.\<close>

definition route_params :: "js_object \<Rightarrow> bool" where
  "route_params m = list_all (\<lambda>p. is_string (snd p) \<or> snd p = JUndefined) m"

section \<open>A schema library for the examples\<close>

text \<open>
  The external validator, where a closed example needs one; the general theorems hold for
  every library value and schema. A coerced number accepts a string of decimal digits
  and rejects any other string as \<open>nan\<close>; a string schema accepts strings. An object
  schema validates \<open>data[key]\<close> for each key of its shape and reports each failure
  under the key. Its \<open>flatten\<close> collects the messages as the library does, into an
  object literal, key by key:
  \<^verbatim>\<open>
  fieldErrors[key] = fieldErrors[key] || [];
  fieldErrors[key].push(message);
  \<close>
\<close>

definition invalid :: "string \<Rightarrow> safe_parse_return" where
  "invalid msg =
     SafeParseError (ZodError (Inr \<lparr>formErrors = JArr [JStr msg], fieldErrors = JObj []\<rparr>))"

definition number_coerce :: zod_type where
  "number_coerce = ZodType (\<lambda>v.
     case v of
       JNum n \<Rightarrow> SafeParseSuccess (JNum n)
     | JStr s \<Rightarrow> (case decimal s 0 of
                    Some n \<Rightarrow> SafeParseSuccess (JNum n)
                  | None \<Rightarrow> invalid ''Expected number, received nan'')
     | _ \<Rightarrow> invalid ''Expected number, received nan'')"

definition string_type :: zod_type where
  "string_type = ZodType (\<lambda>v.
     case v of
       JStr s \<Rightarrow> SafeParseSuccess (JStr s)
     | JUndefined \<Rightarrow> invalid ''Required''
     | JNum n \<Rightarrow> invalid ''Expected string, received number''
     | JArr xs \<Rightarrow> invalid ''Expected string, received array''
     | JObj ps \<Rightarrow> invalid ''Expected string, received object''
     | JObjA xs ps \<Rightarrow> invalid ''Expected string, received object''
     | JBuiltin n \<Rightarrow> invalid ''Expected string, received function'')"

fun failed :: "string \<times> safe_parse_return \<Rightarrow> bool" where
  "failed (k, SafeParseError e) = True"
| "failed (k, SafeParseSuccess d) = False"

fun field_issues :: "(string \<times> safe_parse_return) list \<Rightarrow> (string \<times> jsval) list" where
  "field_issues [] = []"
| "field_issues ((k, SafeParseError e) # rs) =
     (case flatten e of
        Inr f \<Rightarrow> (case formErrors f of JArr ms \<Rightarrow> map (\<lambda>m. (k, m)) ms | _ \<Rightarrow> [])
      | Inl x \<Rightarrow> []) @ field_issues rs"
| "field_issues ((k, SafeParseSuccess d) # rs) = field_issues rs"

fun field_values :: "(string \<times> safe_parse_return) list \<Rightarrow> js_object" where
  "field_values [] = []"
| "field_values ((k, SafeParseSuccess d) # rs) = (k, d) # field_values rs"
| "field_values ((k, SafeParseError e) # rs) = field_values rs"

fun add_field_error :: "failure + jsval \<Rightarrow> string \<times> jsval \<Rightarrow> failure + jsval" where
  "add_field_error (Inl x) (k, msg) = Inl x"
| "add_field_error (Inr fe) (k, msg) =
     (let current = get fe k in
      if truthy current
      then (if isArray current then Inr (push_at fe k msg) else Inl (TypeError NotAFunction))
      else Inr (push_at (assign fe k (JArr [])) k msg))"

definition flatten_issues :: "(string \<times> jsval) list \<Rightarrow> failure + flattened_error" where
  "flatten_issues issues =
     (case foldl add_field_error (Inr (JObj [])) issues of
        Inl x \<Rightarrow> Inl x
      | Inr fe \<Rightarrow> Inr \<lparr>formErrors = JArr [], fieldErrors = fe\<rparr>)"

definition check_fields :: "(string \<times> zod_type) list \<Rightarrow> jsval \<Rightarrow> safe_parse_return" where
  "check_fields shape data =
     (let results = map (\<lambda>(k, t). (k, safeParse t (get data k))) shape in
      if list_ex failed results
      then SafeParseError (ZodError (flatten_issues (field_issues results)))
      else SafeParseSuccess (JObj (field_values results)))"

definition object_type :: "(string \<times> zod_type) list \<Rightarrow> zod_type" where
  "object_type shape = ZodType (\<lambda>data.
     if plain_object data then check_fields shape data else invalid ''Expected object'')"

definition z_example :: zod where
  "z_example = \<lparr>object = object_type\<rparr>"

definition schema_example :: schema where
  "schema_example = ZodRawShape [(''a'', number_coerce), (''b'', string_type)]"

text \<open>A request event whose body holds the form fields \<open>a=1, b=test\<close>, before and after
  the body is read.\<close>

definition event_example :: request_event where
  "event_example =
     \<lparr>url_searchParams = [(''a'', ''1''), (''b'', ''test'')],
      request = \<lparr>decoded = Inr [(''a'', EntryString ''1''), (''b'', EntryString ''test'')],
                 body = Unread\<rparr>\<rparr>"

definition event_example_read :: request_event where
  "event_example_read =
     \<lparr>url_searchParams = [(''a'', ''1''), (''b'', ''test'')],
      request = \<lparr>decoded = Inr [(''a'', EntryString ''1''), (''b'', EntryString ''test'')],
                 body = Read\<rparr>\<rparr>"

section \<open>Normalization: the loop, key by key\<close>

lemma param_value_push: "param_value c \<Longrightarrow> param_value (push c v)"
  by (cases c) simp_all

lemma set_update_cases:
  "(k', v') \<in> set (AList.update k v al) \<Longrightarrow> (k', v') \<in> set al \<or> (k' = k \<and> v' = v)"
  by (induction al) (auto split: if_splits)

lemma all_update:
  assumes "list_all (\<lambda>p. P (snd p)) al" and "P v"
  shows "list_all (\<lambda>p. P (snd p)) (AList.update k v al)"
  using assms unfolding list_all_iff by (auto dest!: set_update_cases)

lemma params_ok_assign:
  assumes "params_ok obj" and "param_value v"
  shows "params_ok (assign obj k v)"
proof (cases obj)
  case (JObj ps)
  with assms show ?thesis
    by (cases v) (simp_all add: params_ok_def set_prop_def all_update)
next
  case (JObjA xs ps)
  with assms show ?thesis
    by (cases v) (simp_all add: params_ok_def set_prop_def all_update)
qed (use assms in \<open>simp_all add: params_ok_def\<close>)

lemma params_ok_push_at:
  assumes "params_ok obj"
  shows "params_ok (push_at obj k v)"
proof (cases obj)
  case (JObj ps)
  show ?thesis
  proof (cases "map_of ps k")
    case None
    with assms JObj show ?thesis by simp
  next
    case (Some c)
    then have "(k, c) \<in> set ps" by (rule map_of_SomeD)
    with assms JObj have "param_value c" by (auto simp: params_ok_def list_all_iff)
    then have "param_value (push c v)" by (rule param_value_push)
    with assms JObj Some show ?thesis by (simp add: params_ok_def set_prop_def all_update)
  qed
next
  case (JObjA xs ps)
  show ?thesis
  proof (cases "map_of ps k")
    case None
    with assms JObjA show ?thesis by (simp add: params_ok_def split: option.splits)
  next
    case (Some c)
    then have "(k, c) \<in> set ps" by (rule map_of_SomeD)
    with assms JObjA have "param_value c" by (auto simp: params_ok_def list_all_iff)
    then have "param_value (push c v)" by (rule param_value_push)
    with assms JObjA Some show ?thesis by (simp add: params_ok_def set_prop_def all_update)
  qed
qed (use assms in \<open>simp_all add: params_ok_def\<close>)

lemma params_ok_collect:
  assumes "params_ok ps"
  shows "params_ok (collect ps kv)"
proof -
  obtain k v where kv: "kv = (k, v)" by (cases kv)
  have "param_value (if truthy (get ps k) then JArr [get ps k, JStr v] else JStr v)"
    by simp
  then show ?thesis
    using assms unfolding kv by (simp add: Let_def params_ok_assign params_ok_push_at)
qed

lemma params_ok_foldl:
  "params_ok ps \<Longrightarrow> params_ok (foldl collect ps sp)"
proof (induction sp arbitrary: ps)
  case Nil
  then show ?case by simp
next
  case (Cons kv sp)
  have "params_ok (collect ps kv)" using Cons.prems by (rule params_ok_collect)
  then have "params_ok (foldl collect (collect ps kv) sp)" by (rule Cons.IH)
  then show ?case by simp
qed

lemma params_ok_getSearchParams: "params_ok (getSearchParams src)"
  unfolding getSearchParams_def by (rule params_ok_foldl) (simp add: params_ok_def)

text \<open>The result is a plain object.\<close>

lemma plain_object_getSearchParams: "plain_object (getSearchParams src)"
  using params_ok_getSearchParams [of src] by (simp add: params_ok_def)

subsection \<open>Keys that are not inherited\<close>

lemma get_not_inherited:
  "\<not> inherited_key k \<Longrightarrow>
   get (JObj ps) k = (case map_of ps k of Some v \<Rightarrow> v | None \<Rightarrow> JUndefined)"
  by (simp add: inherited_key_def Object_prototype_def split: option.splits)

lemma collect_not_inherited:
  assumes "\<not> inherited_key k"
  shows "collect (JObj ps) (k, v) =
     JObj (AList.update k (next_value (case map_of ps k of Some c \<Rightarrow> c | None \<Rightarrow> JUndefined) v) ps)"
proof -
  have p: "k \<noteq> ''__proto__''" using assms by (auto simp: inherited_key_def)
  have g: "get (JObj ps) k = (case map_of ps k of Some v \<Rightarrow> v | None \<Rightarrow> JUndefined)"
    using assms by (rule get_not_inherited)
  show ?thesis
  proof (cases "map_of ps k")
    case None
    then show ?thesis
      using p by (simp add: g next_value_def set_prop_def del: get.simps)
  next
    case (Some c)
    then show ?thesis
      using p by (simp add: g next_value_def set_prop_def del: get.simps)
  qed
qed

lemma collapse_snoc:
  "collapse (vs @ [v]) =
     Some (next_value (case collapse vs of None \<Rightarrow> JUndefined | Some c \<Rightarrow> c) v)"
proof (cases "vs = []")
  case True
  then show ?thesis by (simp add: collapse_def next_value_def)
next
  case False
  show ?thesis
  proof (cases "dropWhile (\<lambda>v. v = []) vs")
    case Nil
    have cv: "collapse vs = Some (JStr [])"
      unfolding collapse_def Nil using False by simp
    have "\<forall>x\<in>set vs. x = []" using Nil by simp
    then have d: "dropWhile (\<lambda>v. v = []) (vs @ [v]) = dropWhile (\<lambda>v. v = []) [v]"
      by simp
    have "collapse (vs @ [v]) = Some (JStr v)"
      unfolding collapse_def d by simp
    then show ?thesis by (simp add: cv next_value_def)
  next
    case (Cons w ws)
    have ex: "\<exists>x\<in>set vs. x \<noteq> []"
    proof (rule ccontr)
      assume "\<not> (\<exists>x\<in>set vs. x \<noteq> [])"
      then have "dropWhile (\<lambda>v. v = []) vs = []" by simp
      with Cons show False by simp
    qed
    from ex obtain x where x: "x \<in> set vs" "\<not> (\<lambda>v. v = []) x" by auto
    have "dropWhile (\<lambda>v. v = []) (vs @ [v]) = dropWhile (\<lambda>v. v = []) vs @ [v]"
      using x by (rule dropWhile_append1)
    then have d: "dropWhile (\<lambda>v. v = []) (vs @ [v]) = w # ws @ [v]"
      by (simp add: Cons)
    have "\<not> (\<lambda>v. v = []) (hd (dropWhile (\<lambda>v. v = []) vs))"
      by (rule hd_dropWhile) (simp add: Cons)
    then have w: "w \<noteq> []" by (simp add: Cons)
    have cv: "collapse vs =
        (case ws of [] \<Rightarrow> Some (JStr w) | _ \<Rightarrow> Some (JArr (map JStr (w # ws))))"
      unfolding collapse_def Cons using False by (simp split: list.splits)
    have cv': "collapse (vs @ [v]) = Some (JArr (map JStr (w # ws @ [v])))"
      unfolding collapse_def d by (cases ws) simp_all
    show ?thesis using w by (cases ws) (simp_all add: cv cv' next_value_def)
  qed
qed

lemma foldl_collect_not_inherited:
  assumes "\<forall>p\<in>set sp. \<not> inherited_key (fst p)"
  shows "\<exists>ps. foldl collect (JObj []) sp = JObj ps \<and> (\<forall>k. map_of ps k = collapse (values_of k sp))"
  using assms
proof (induction sp rule: rev_induct)
  case Nil
  then show ?case by (simp add: collapse_def values_of_def)
next
  case (snoc kv sp)
  obtain k' v where kv: "kv = (k', v)" by (cases kv)
  from snoc obtain ps where ps: "foldl collect (JObj []) sp = JObj ps"
    and m: "\<And>k. map_of ps k = collapse (values_of k sp)" by auto
  have n: "\<not> inherited_key k'" using snoc.prems by (simp add: kv)
  let ?ps' = "AList.update k'
      (next_value (case map_of ps k' of Some c \<Rightarrow> c | None \<Rightarrow> JUndefined) v) ps"
  have step: "foldl collect (JObj []) (sp @ [kv]) = JObj ?ps'"
    by (simp add: ps kv collect_not_inherited [OF n] del: collect.simps)
  have "map_of ?ps' k = collapse (values_of k (sp @ [kv]))" for k
  proof (cases "k' = k")
    case True
    then show ?thesis
      by (simp add: update_conv' kv values_of_def collapse_snoc m [unfolded values_of_def]
          split: option.splits)
  next
    case False
    then show ?thesis
      by (simp add: update_conv' kv values_of_def m [unfolded values_of_def])
  qed
  with step show ?case by blast
qed

text \<open>What the code does for a source none of whose keys is inherited: the canonical
  mapping is an object literal that holds, under each key, the collapse of that key's
  values in source order. A key with one value keeps that string; a repeated key whose
  first value is not empty holds all its values, in order.\<close>

lemma getSearchParams_key:
  assumes "\<forall>p\<in>set (searchParams_of src). \<not> inherited_key (fst p)"
  shows "map_of (own_properties (getSearchParams src)) k
       = collapse (values_of k (searchParams_of src))"
  using foldl_collect_not_inherited [OF assms] by (auto simp: getSearchParams_def)

lemma getSearchParams_single:
  assumes "\<forall>p\<in>set (searchParams_of src). \<not> inherited_key (fst p)"
    and "values_of k (searchParams_of src) = [v]"
  shows "map_of (own_properties (getSearchParams src)) k = Some (JStr v)"
  using assms(2) by (simp add: getSearchParams_key [OF assms(1)] collapse_def)

lemma getSearchParams_repeated:
  assumes "\<forall>p\<in>set (searchParams_of src). \<not> inherited_key (fst p)"
    and "values_of k (searchParams_of src) = v # w # vs" and "v \<noteq> []"
  shows "map_of (own_properties (getSearchParams src)) k = Some (JArr (map JStr (v # w # vs)))"
  using assms(2,3) by (simp add: getSearchParams_key [OF assms(1)] collapse_def)

text \<open>An inherited key finds the member of \<open>Object.prototype\<close> and is stored with it.\<close>

lemma getSearchParams_inherited:
  "getSearchParams (URLSearchParams [(''toString'', ''1'')])
     = JObj [(''toString'', JArr [JBuiltin ''Object.prototype.toString'', JStr ''1''])]"
  by (simp add: getSearchParams_def Object_prototype_def object_prototype_keys_def set_prop_def)

text \<open>The key \<open>__proto__\<close> finds \<open>Object.prototype\<close>; the assignment runs its setter
  and makes the new array the prototype of the result, which gets no own property.\<close>

lemma getSearchParams_proto:
  "getSearchParams (URLSearchParams [(''__proto__'', ''x''), (''__proto__'', ''y'')])
     = JObjA [JBuiltin ''Object.prototype'', JStr ''x'', JStr ''y''] []"
  by (simp add: getSearchParams_def)

text \<open>C1. The claim: every repeated key maps to the sequence of all its values in source
  order. On the query string \<open>?a=&a=1\<close> the key \<open>a\<close> is repeated, and the code maps it
  to the single string \<open>1\<close>: the stored empty string is falsy, so the second value
  replaces it instead of joining it in a sequence.\<close>

theorem getSearchParams_drops_leading_empty:
  "getSearchParams (URLSearchParams [(''a'', ''''), (''a'', ''1'')]) = JObj [(''a'', JStr ''1'')]"
  by (simp add: getSearchParams_def Object_prototype_def object_prototype_keys_def set_prop_def)

text \<open>C9. Every value of the canonical mapping is a single string or an array of at least
  two elements: no key holds an empty or a one-element array.\<close>

theorem getSearchParams_value_shape:
  assumes "(k, v) \<in> set (own_properties (getSearchParams src))"
  shows "((\<exists>s. v = JStr s) \<or> (\<exists>xs. v = JArr xs \<and> 2 \<le> length xs))
       \<and> v \<noteq> JArr [] \<and> (\<forall>x. v \<noteq> JArr [x])"
proof -
  have "param_value v"
    using assms params_ok_getSearchParams [of src] by (auto simp: params_ok_def list_all_iff)
  then show ?thesis by (cases v) auto
qed

theorem getSearchParams_value_shape_witness:
  "(''a'', JArr [JStr ''1'', JStr ''2'', JStr []])
     \<in> set (own_properties
          (getSearchParams (URLSearchParams [(''a'', ''1''), (''b'', ''x''), (''a'', ''2''), (''a'', [])])))
   \<and> ((\<exists>s. JArr [JStr ''1'', JStr ''2'', JStr []] = JStr s)
      \<or> (\<exists>xs. JArr [JStr ''1'', JStr ''2'', JStr []] = JArr xs \<and> 2 \<le> length xs))"
proof -
  have h: "(''a'', JArr [JStr ''1'', JStr ''2'', JStr []])
     \<in> set (own_properties
          (getSearchParams (URLSearchParams [(''a'', ''1''), (''b'', ''x''), (''a'', ''2''), (''a'', [])])))"
    by (simp add: getSearchParams_def Object_prototype_def object_prototype_keys_def set_prop_def)
  show ?thesis using h getSearchParams_value_shape [OF h] by blast
qed

section \<open>Facts shared by the operations\<close>

lemmas example_defs =
  z_example_def schema_example_def object_type_def check_fields_def flatten_issues_def
  number_coerce_def string_type_def invalid_def get_prop_def set_prop_def getSearchParams_def
  Object_prototype_def object_prototype_keys_def

lemma parseFormData_fst:
  "fst (parseFormData z src schema) =
     (case fst (getFormData src) of Inl e \<Rightarrow> Inl e | Inr fd \<Rightarrow> parse z fd schema)"
  by (simp add: parseFormData_def split: prod.splits sum.splits)

lemma parseFormDataSafe_fst:
  "fst (parseFormDataSafe z src schema) =
     (case fst (getFormData src) of Inl e \<Rightarrow> Inl e | Inr fd \<Rightarrow> parseSafe z fd schema)"
  by (simp add: parseFormDataSafe_def split: prod.splits sum.splits)

lemma parseFormData_snd: "snd (parseFormData z src schema) = snd (getFormData src)"
  by (simp add: parseFormData_def split: prod.splits sum.splits)

lemma parseFormDataSafe_snd: "snd (parseFormDataSafe z src schema) = snd (getFormData src)"
  by (simp add: parseFormDataSafe_def split: prod.splits sum.splits)

lemma getFormData_event:
  "getFormData (FormEvent ev) =
     (map_sum id (\<lambda>fd. getSearchParams (URLSearchParams (URLSearchParams_of_form fd)))
        (fst (formData (request ev))),
      FormEvent (ev\<lparr>request := snd (formData (request ev))\<rparr>))"
  by (simp split: prod.splits sum.splits)

lemma params_not_inherited: "\<not> inherited_key ''params''"
  by (simp add: inherited_key_def object_prototype_keys_def)

lemma route_params_get_prop:
  assumes "route_params m"
  shows "\<not> instanceofObject (get_prop m ''params'')"
proof (cases "map_of m ''params''")
  case None
  then show ?thesis
    by (simp add: get_prop_def get_not_inherited [OF params_not_inherited] del: get.simps)
next
  case (Some v)
  then have "(''params'', v) \<in> set m" by (rule map_of_SomeD)
  with assms have "is_string v \<or> v = JUndefined" by (auto simp: route_params_def list_all_iff)
  then show ?thesis
    using Some
    by (cases v)
       (simp_all add: get_prop_def get_not_inherited [OF params_not_inherited] del: get.simps)
qed

lemma routeParams_raw: "route_params m \<Longrightarrow> routeParams m = JObj m"
  by (simp add: routeParams_def isRequestEvent_def route_params_get_prop)

lemma routeParams_event:
  "instanceofObject (get_prop ev ''params'') \<Longrightarrow> routeParams ev = get_prop ev ''params''"
  by (simp add: routeParams_def isRequestEvent_def)

section \<open>Result shaping\<close>

text \<open>When the validator rejects the data an operation hands to it, with error \<open>e\<close>, and
  \<open>e.flatten()\<close> returns: every strict operation raises an error of status 400 whose
  payload holds, under \<open>errors\<close>, the flattened field errors; every safe operation
  returns the tagged failure with the same field errors. The earlier module raises
  \<open>fail(400, {errors})\<close> and returns the validator's own failure.\<close>

lemma rejected_and_flattened:
  assumes "safeParse (getSchema z schema) d = SafeParseError e" and "flatten e = Inr f"
  shows "let fe = fieldErrors f;
             raised = Inl (HttpError 400 (JObj [(''message'', JStr ''Parsing Failed''), (''errors'', fe)]));
             failed = Inr (SafeFailure fe (ActionFailure 400 (JObj [(''errors'', fe)])))
         in parse z d schema = raised \<and> parseSafe z d schema = failed
          \<and> parse_v0 z d schema = Inl (ActionFailure 400 (JObj [(''errors'', fe)]))
          \<and> parseSafe_v0 z d schema = SafeParseError e
          \<and> (getSearchParams src = d \<longrightarrow>
               fst (parseSearchParams z src schema) = raised \<and>
               fst (parseSearchParamsSafe z src schema) = failed)
          \<and> (fst (getFormData fsrc) = Inr d \<longrightarrow>
               fst (parseFormData z fsrc schema) = raised \<and>
               fst (parseFormDataSafe z fsrc schema) = failed)
          \<and> (routeParams rsrc = d \<longrightarrow>
               fst (parseRouteParams z rsrc schema) = raised \<and>
               fst (parseRouteParamsSafe z rsrc schema) = failed)"
  using assms
  by (simp add: Let_def parse_def parseSafe_def parse_v0_def parseSafe_v0_def
      parseSearchParams_def parseSearchParamsSafe_def
      parseFormData_fst parseFormDataSafe_fst parseRouteParams_def parseRouteParamsSafe_def)

text \<open>When \<open>e.flatten()\<close> raises, the strict and the safe operations raise what it
  raises; only the safe parse of the earlier module, which does not flatten, returns.\<close>

lemma rejected_and_flatten_raises:
  assumes "safeParse (getSchema z schema) d = SafeParseError e" and "flatten e = Inl x"
  shows "parse z d schema = Inl x \<and> parseSafe z d schema = Inl x
       \<and> parse_v0 z d schema = Inl x \<and> parseSafe_v0 z d schema = SafeParseError e
       \<and> (getSearchParams src = d \<longrightarrow>
            fst (parseSearchParams z src schema) = Inl x \<and>
            fst (parseSearchParamsSafe z src schema) = Inl x)
       \<and> (fst (getFormData fsrc) = Inr d \<longrightarrow>
            fst (parseFormData z fsrc schema) = Inl x \<and>
            fst (parseFormDataSafe z fsrc schema) = Inl x)
       \<and> (routeParams rsrc = d \<longrightarrow>
            fst (parseRouteParams z rsrc schema) = Inl x \<and>
            fst (parseRouteParamsSafe z rsrc schema) = Inl x)"
  using assms
  by (simp add: parse_def parseSafe_def parse_v0_def parseSafe_v0_def
      parseSearchParams_def parseSearchParamsSafe_def
      parseFormData_fst parseFormDataSafe_fst parseRouteParams_def parseRouteParamsSafe_def)

text \<open>C2. The claim: on every input that fails validation the strict operations raise
  status 400 and the safe operations return a failure and do not raise. On the query
  string \<open>?toString=1\<close> with the schema \<open>{toString: string}\<close> the loop finds the
  inherited \<open>Object.prototype.toString\<close> under the key and stores it with the value;
  the validator rejects the array, \<open>flatten\<close> finds the same inherited member in its
  object of field errors and raises a \<open>TypeError\<close>, and the strict and the safe
  operation both raise it. The route operations do the same on the empty mapping, where
  the validator reads the inherited member itself.\<close>

theorem invalid_input_raises_TypeError:
  "safeParse (getSchema z_example (ZodRawShape [(''toString'', string_type)]))
       (getSearchParams (URLSearchParams [(''toString'', ''1'')]))
     = SafeParseError (ZodError (Inl (TypeError NotAFunction)))
   \<and> fst (parseSearchParams z_example (URLSearchParams [(''toString'', ''1'')])
            (ZodRawShape [(''toString'', string_type)]))
     = Inl (TypeError NotAFunction)
   \<and> fst (parseSearchParamsSafe z_example (URLSearchParams [(''toString'', ''1'')])
            (ZodRawShape [(''toString'', string_type)]))
     = Inl (TypeError NotAFunction)
   \<and> fst (parseRouteParams z_example [] (ZodRawShape [(''toString'', string_type)]))
     = Inl (TypeError NotAFunction)
   \<and> fst (parseRouteParamsSafe z_example [] (ZodRawShape [(''toString'', string_type)]))
     = Inl (TypeError NotAFunction)"
  by (simp add: parseSearchParams_def parseSearchParamsSafe_def parseRouteParams_def
      parseRouteParamsSafe_def routeParams_def isRequestEvent_def parse_def parseSafe_def
      example_defs)

text \<open>C4. When the validator accepts the data an operation hands to it, with value \<open>v\<close>:
  the strict operation returns \<open>v\<close> and the safe operation returns the success that
  carries the same \<open>v\<close>, in both versions of the module.\<close>

theorem valid_input_strict_safe_agree:
  assumes "safeParse (getSchema z schema) d = SafeParseSuccess v"
  shows "parse z d schema = Inr v \<and> parseSafe z d schema = Inr (SafeSuccess v)
          \<and> parse_v0 z d schema = Inr v \<and> parseSafe_v0 z d schema = SafeParseSuccess v
          \<and> (getSearchParams src = d \<longrightarrow>
               fst (parseSearchParams z src schema) = Inr v \<and>
               fst (parseSearchParamsSafe z src schema) = Inr (SafeSuccess v))
          \<and> (fst (getFormData fsrc) = Inr d \<longrightarrow>
               fst (parseFormData z fsrc schema) = Inr v \<and>
               fst (parseFormDataSafe z fsrc schema) = Inr (SafeSuccess v))
          \<and> (routeParams rsrc = d \<longrightarrow>
               fst (parseRouteParams z rsrc schema) = Inr v \<and>
               fst (parseRouteParamsSafe z rsrc schema) = Inr (SafeSuccess v))"
  using assms
  by (simp add: parse_def parseSafe_def parse_v0_def parseSafe_v0_def
      parseSearchParams_def parseSearchParamsSafe_def
      parseFormData_fst parseFormDataSafe_fst parseRouteParams_def parseRouteParamsSafe_def)

theorem valid_input_strict_safe_agree_witness:
  "safeParse (getSchema z_example schema_example) (JObj [(''a'', JStr ''1''), (''b'', JStr ''test'')])
     = SafeParseSuccess (JObj [(''a'', JNum 1), (''b'', JStr ''test'')])
   \<and> fst (parseSearchParams z_example (URLSearchParams [(''a'', ''1''), (''b'', ''test'')]) schema_example)
     = Inr (JObj [(''a'', JNum 1), (''b'', JStr ''test'')])
   \<and> fst (parseSearchParamsSafe z_example (URLSearchParams [(''a'', ''1''), (''b'', ''test'')])
            schema_example)
     = Inr (SafeSuccess (JObj [(''a'', JNum 1), (''b'', JStr ''test'')]))
   \<and> fst (parseFormData z_example (FormEvent event_example) schema_example)
     = Inr (JObj [(''a'', JNum 1), (''b'', JStr ''test'')])
   \<and> fst (parseFormDataSafe z_example (FormEvent event_example) schema_example)
     = Inr (SafeSuccess (JObj [(''a'', JNum 1), (''b'', JStr ''test'')]))
   \<and> fst (parseRouteParams z_example [(''a'', JStr ''1''), (''b'', JStr ''test'')] schema_example)
     = Inr (JObj [(''a'', JNum 1), (''b'', JStr ''test'')])
   \<and> fst (parseRouteParamsSafe z_example [(''a'', JStr ''1''), (''b'', JStr ''test'')] schema_example)
     = Inr (SafeSuccess (JObj [(''a'', JNum 1), (''b'', JStr ''test'')]))"
proof -
  let ?d = "JObj [(''a'', JStr ''1''), (''b'', JStr ''test'')]"
  have h: "safeParse (getSchema z_example schema_example) ?d
      = SafeParseSuccess (JObj [(''a'', JNum 1), (''b'', JStr ''test'')])"
    by (simp add: example_defs)
  have s: "getSearchParams (URLSearchParams [(''a'', ''1''), (''b'', ''test'')]) = ?d"
    by (simp add: example_defs)
  have f: "fst (getFormData (FormEvent event_example)) = Inr ?d"
    by (simp add: example_defs event_example_def formData_def URLSearchParams_of_form_def)
  have r: "routeParams [(''a'', JStr ''1''), (''b'', JStr ''test'')] = ?d"
    by (simp add: routeParams_def isRequestEvent_def example_defs)
  show ?thesis
    using h valid_input_strict_safe_agree [OF h,
        where src = "URLSearchParams [(''a'', ''1''), (''b'', ''test'')]"
          and fsrc = "FormEvent event_example"
          and rsrc = "[(''a'', JStr ''1''), (''b'', JStr ''test'')]"]
    unfolding s f r by simp
qed

lemma parse_shape: "parse z d (ZodRawShape shape) = parse z d (ZodTypeAny (object z shape))"
  by (simp add: parse_def)

lemma parseSafe_shape:
  "parseSafe z d (ZodRawShape shape) = parseSafe z d (ZodTypeAny (object z shape))"
  by (simp add: parseSafe_def)

lemma parseFormData_shape:
  "parseFormData z fsrc (ZodRawShape shape) = parseFormData z fsrc (ZodTypeAny (object z shape))"
  by (simp add: parseFormData_def parse_shape split: prod.splits sum.splits)

lemma parseFormDataSafe_shape:
  "parseFormDataSafe z fsrc (ZodRawShape shape)
     = parseFormDataSafe z fsrc (ZodTypeAny (object z shape))"
  by (simp add: parseFormDataSafe_def parseSafe_shape split: prod.splits sum.splits)

text \<open>C5. The adapter returns a schema instance as it is and turns a plain mapping of
  fields into the object schema of exactly these fields, \<open>z.object(shape)\<close>; it has no
  failing branch. So every operation gives the same result for the mapping as for the
  object schema built from it.\<close>

theorem getSchema_adapter:
  "getSchema z (ZodTypeAny t) = t
   \<and> getSchema z (ZodRawShape shape) = object z shape
   \<and> parse z d (ZodRawShape shape) = parse z d (ZodTypeAny (object z shape))
   \<and> parseSafe z d (ZodRawShape shape) = parseSafe z d (ZodTypeAny (object z shape))
   \<and> parseSearchParams z src (ZodRawShape shape) = parseSearchParams z src (ZodTypeAny (object z shape))
   \<and> parseSearchParamsSafe z src (ZodRawShape shape)
       = parseSearchParamsSafe z src (ZodTypeAny (object z shape))
   \<and> parseFormData z fsrc (ZodRawShape shape) = parseFormData z fsrc (ZodTypeAny (object z shape))
   \<and> parseFormDataSafe z fsrc (ZodRawShape shape)
       = parseFormDataSafe z fsrc (ZodTypeAny (object z shape))
   \<and> parseRouteParams z rsrc (ZodRawShape shape) = parseRouteParams z rsrc (ZodTypeAny (object z shape))
   \<and> parseRouteParamsSafe z rsrc (ZodRawShape shape)
       = parseRouteParamsSafe z rsrc (ZodTypeAny (object z shape))"
  by (simp add: parse_shape parseSafe_shape parseSearchParams_def parseSearchParamsSafe_def
      parseFormData_shape parseFormDataSafe_shape parseRouteParams_def parseRouteParamsSafe_def)

section \<open>The example of the query strings\<close>


text \<open>The payload the claim names is the one the safe parse builds for its response,
  and the one the strict parse of the earlier module raises.\<close>

lemma sibling_payloads:
  "fst (parseSearchParamsSafe z_example (URLSearchParams [(''a'', ''test''), (''b'', ''test'')])
          schema_example)
     = Inr (SafeFailure (JObj [(''a'', JArr [JStr ''Expected number, received nan''])])
         (ActionFailure 400
           (JObj [(''errors'', JObj [(''a'', JArr [JStr ''Expected number, received nan''])])])))
   \<and> fst (parseSearchParams_v0 z_example (URLSearchParams [(''a'', ''test''), (''b'', ''test'')])
          schema_example)
     = Inl (ActionFailure 400
         (JObj [(''errors'', JObj [(''a'', JArr [JStr ''Expected number, received nan''])])]))
   \<and> fst (parseSearchParams z_example (URLSearchParams [(''a'', ''1''), (''b'', ''test'')])
          schema_example)
     = Inr (JObj [(''a'', JNum 1), (''b'', JStr ''test'')])"
  by (simp add: parseSearchParamsSafe_def parseSafe_def parseSearchParams_v0_def parse_v0_def
      parseSafe_v0_def parseSearchParams_def parse_def example_defs)

section \<open>Route parameters\<close>

text \<open>C6. For a route-parameter mapping \<open>m\<close> (values strings or \<open>undefined\<close>) and a
  request event whose attribute \<open>params\<close> is \<open>m\<close>, both route parsers return for the
  event what they return for \<open>m\<close> itself.\<close>

theorem route_params_wrapper:
  assumes "route_params m" and "get_prop ev ''params'' = JObj m"
  shows "fst (parseRouteParams z ev schema) = fst (parseRouteParams z m schema)
       \<and> fst (parseRouteParamsSafe z ev schema) = fst (parseRouteParamsSafe z m schema)"
proof -
  have "routeParams m = JObj m" using assms(1) by (rule routeParams_raw)
  moreover have "routeParams ev = JObj m" using assms(2) by (simp add: routeParams_event)
  ultimately show ?thesis by (simp add: parseRouteParams_def parseRouteParamsSafe_def)
qed

theorem route_params_wrapper_witness:
  "route_params [(''params'', JStr ''x''), (''a'', JStr ''1''), (''b'', JStr ''test'')]
   \<and> get_prop [(''params'', JObj [(''params'', JStr ''x''), (''a'', JStr ''1''), (''b'', JStr ''test'')])]
        ''params'' = JObj [(''params'', JStr ''x''), (''a'', JStr ''1''), (''b'', JStr ''test'')]
   \<and> fst (parseRouteParams z_example
        [(''params'', JObj [(''params'', JStr ''x''), (''a'', JStr ''1''), (''b'', JStr ''test'')])]
        schema_example)
      = fst (parseRouteParams z_example
        [(''params'', JStr ''x''), (''a'', JStr ''1''), (''b'', JStr ''test'')] schema_example)
   \<and> fst (parseRouteParams z_example
        [(''params'', JStr ''x''), (''a'', JStr ''1''), (''b'', JStr ''test'')] schema_example)
      = Inr (JObj [(''a'', JNum 1), (''b'', JStr ''test'')])"
proof -
  let ?m = "[(''params'', JStr ''x''), (''a'', JStr ''1''), (''b'', JStr ''test'')]"
  have h1: "route_params ?m" by (simp add: route_params_def)
  have h2: "get_prop [(''params'', JObj ?m)] ''params'' = JObj ?m" by (simp add: get_prop_def)
  have v: "fst (parseRouteParams z_example ?m schema_example)
      = Inr (JObj [(''a'', JNum 1), (''b'', JStr ''test'')])"
    by (simp add: parseRouteParams_def routeParams_def isRequestEvent_def parse_def example_defs)
  show ?thesis
    using h1 h2 v route_params_wrapper [OF h1 h2, of z_example schema_example] by simp
qed

text \<open>C10. A raw route-parameter mapping is never taken for a request event, also when
  it has a key \<open>params\<close> (whose value is then a string): the route parsers validate
  the mapping itself. An object whose attribute \<open>params\<close> is an object is taken for a
  request event, and the route parsers validate that attribute.\<close>

theorem isRequestEvent_discriminates:
  "(route_params m \<longrightarrow>
      \<not> isRequestEvent m
      \<and> fst (parseRouteParams z m schema) = parse z (JObj m) schema
      \<and> fst (parseRouteParamsSafe z m schema) = parseSafe z (JObj m) schema)
   \<and> (instanceofObject (get_prop ev ''params'') \<longrightarrow>
      isRequestEvent ev
      \<and> fst (parseRouteParams z ev schema) = parse z (get_prop ev ''params'') schema
      \<and> fst (parseRouteParamsSafe z ev schema) = parseSafe z (get_prop ev ''params'') schema)"
  by (simp add: parseRouteParams_def parseRouteParamsSafe_def routeParams_raw routeParams_event)
     (simp add: isRequestEvent_def route_params_get_prop)

theorem isRequestEvent_discriminates_witness:
  "route_params [(''params'', JStr ''x''), (''a'', JStr ''1'')]
   \<and> \<not> isRequestEvent [(''params'', JStr ''x''), (''a'', JStr ''1'')]
   \<and> fst (parseRouteParams z_example [(''params'', JStr ''x''), (''a'', JStr ''1'')] schema_example)
      = parse z_example (JObj [(''params'', JStr ''x''), (''a'', JStr ''1'')]) schema_example
   \<and> instanceofObject (get_prop [(''params'', JObj [(''a'', JStr ''1'')])] ''params'')
   \<and> isRequestEvent [(''params'', JObj [(''a'', JStr ''1'')])]
   \<and> fst (parseRouteParams z_example [(''params'', JObj [(''a'', JStr ''1'')])] schema_example)
      = parse z_example (JObj [(''a'', JStr ''1'')]) schema_example"
proof -
  have h1: "route_params [(''params'', JStr ''x''), (''a'', JStr ''1'')]"
    by (simp add: route_params_def)
  have h2: "instanceofObject (get_prop [(''params'', JObj [(''a'', JStr ''1'')])] ''params'')"
    by (simp add: get_prop_def)
  have g: "get_prop [(''params'', JObj [(''a'', JStr ''1'')])] ''params'' = JObj [(''a'', JStr ''1'')]"
    by (simp add: get_prop_def)
  show ?thesis
    using h1 h2
      isRequestEvent_discriminates [of "[(''params'', JStr ''x''), (''a'', JStr ''1'')]"
        z_example schema_example "[(''params'', JObj [(''a'', JStr ''1'')])]"]
    unfolding g by simp
qed

section \<open>Form fields\<close>

text \<open>C7. Once the form data \<open>fd\<close> is there (given as such, or read from the body of a
  request wrapper whose body was not read before), it is normalized by
  \<open>getSearchParams\<close> on the entries of \<open>fd\<close>, so the form operations return what the
  query-string operations return on these entries. For the form fields \<open>a=1, b=test\<close>
  that is the result for the query string \<open>?a=1&b=test\<close>.\<close>

theorem form_fields_normalized_as_query:
  assumes "src = FormData fd
         \<or> (src = FormEvent ev \<and> \<not> bodyUsed (request ev) \<and> decoded (request ev) = Inr fd)"
  shows "fst (getFormData src) = Inr (getSearchParams (URLSearchParams (URLSearchParams_of_form fd)))
       \<and> fst (parseFormData z src schema)
           = fst (parseSearchParams z (URLSearchParams (URLSearchParams_of_form fd)) schema)
       \<and> fst (parseFormDataSafe z src schema)
           = fst (parseSearchParamsSafe z (URLSearchParams (URLSearchParams_of_form fd)) schema)
       \<and> (fd = [(''a'', EntryString ''1''), (''b'', EntryString ''test'')] \<longrightarrow>
            fst (parseFormData z src schema)
              = fst (parseSearchParams z (URLSearchParams [(''a'', ''1''), (''b'', ''test'')]) schema)
          \<and> fst (parseFormDataSafe z src schema)
              = fst (parseSearchParamsSafe z (URLSearchParams [(''a'', ''1''), (''b'', ''test'')])
                      schema))"
proof -
  have g: "fst (getFormData src) = Inr (getSearchParams (URLSearchParams (URLSearchParams_of_form fd)))"
    using assms by (auto simp: formData_def bodyUsed_def split: body_state.splits)
  have e: "URLSearchParams_of_form [(''a'', EntryString ''1''), (''b'', EntryString ''test'')]
      = [(''a'', ''1''), (''b'', ''test'')]"
    by (simp add: URLSearchParams_of_form_def)
  have p: "fst (parseFormData z src schema)
           = fst (parseSearchParams z (URLSearchParams (URLSearchParams_of_form fd)) schema)"
    by (simp add: parseFormData_fst g parseSearchParams_def)
  have q: "fst (parseFormDataSafe z src schema)
           = fst (parseSearchParamsSafe z (URLSearchParams (URLSearchParams_of_form fd)) schema)"
    by (simp add: parseFormDataSafe_fst g parseSearchParamsSafe_def)
  show ?thesis using g p q e by auto
qed

theorem form_fields_normalized_as_query_witness:
  "\<not> bodyUsed (request event_example)
   \<and> decoded (request event_example) = Inr [(''a'', EntryString ''1''), (''b'', EntryString ''test'')]
   \<and> fst (parseFormData z_example (FormEvent event_example) schema_example)
       = fst (parseSearchParams z_example (URLSearchParams [(''a'', ''1''), (''b'', ''test'')])
               schema_example)
   \<and> fst (parseFormData z_example
            (FormData [(''a'', EntryString ''1''), (''b'', EntryString ''test'')]) schema_example)
       = fst (parseSearchParams z_example (URLSearchParams [(''a'', ''1''), (''b'', ''test'')])
               schema_example)
   \<and> fst (parseSearchParams z_example (URLSearchParams [(''a'', ''1''), (''b'', ''test'')])
            schema_example)
       = Inr (JObj [(''a'', JNum 1), (''b'', JStr ''test'')])"
proof -
  let ?fd = "[(''a'', EntryString ''1''), (''b'', EntryString ''test'')]"
  have h1: "\<not> bodyUsed (request event_example)" by (simp add: event_example_def bodyUsed_def)
  have h2: "decoded (request event_example) = Inr ?fd" by (simp add: event_example_def)
  have a: "FormEvent event_example = FormData ?fd
         \<or> (FormEvent event_example = FormEvent event_example
            \<and> \<not> bodyUsed (request event_example) \<and> decoded (request event_example) = Inr ?fd)"
    using h1 h2 by simp
  have b: "FormData ?fd = FormData ?fd
         \<or> (FormData ?fd = FormEvent event_example
            \<and> \<not> bodyUsed (request event_example) \<and> decoded (request event_example) = Inr ?fd)"
    by simp
  have v: "fst (parseSearchParams z_example (URLSearchParams [(''a'', ''1''), (''b'', ''test'')])
            schema_example)
       = Inr (JObj [(''a'', JNum 1), (''b'', JStr ''test'')])"
    by (simp add: parseSearchParams_def parse_def example_defs)
  show ?thesis
    using h1 h2 v
      form_fields_normalized_as_query [OF a, of z_example schema_example]
      form_fields_normalized_as_query [OF b, of z_example schema_example]
    by (simp add: URLSearchParams_of_form_def)
qed

section \<open>State\<close>

text \<open>C8, as stated, fails for the form operations given a request wrapper with a body:
  the call reads the body, so it leaves the wrapper changed, and the same call on the
  wrapper as the first call left it raises the error of the body read instead of
  returning the parsed value.\<close>

theorem form_parse_twice_counterexample:
  "fst (parseFormData z_example
          (snd (parseFormData z_example (FormEvent event_example) schema_example)) schema_example)
     \<noteq> fst (parseFormData z_example (FormEvent event_example) schema_example)
   \<and> snd (parseFormData z_example (FormEvent event_example) schema_example) \<noteq> FormEvent event_example"
  by (simp add: parseFormData_def formData_def event_example_def parse_def example_defs
      URLSearchParams_of_form_def)

text \<open>A request without a body is not changed by the read, so there the second call
  repeats the first.\<close>

lemma form_parse_without_body:
  assumes "body (request ev) = NoBody"
  shows "parseFormData z (snd (parseFormData z (FormEvent ev) schema)) schema
       = parseFormData z (FormEvent ev) schema"
proof -
  have "formData (request ev) = (decoded (request ev), request ev)"
    using assms by (simp add: formData_def)
  then have "snd (getFormData (FormEvent ev)) = FormEvent ev"
    by (simp add: getFormData_event del: getFormData.simps)
  then show ?thesis by (simp add: parseFormData_snd)
qed

text \<open>
  C8, amended. No operation changes its source, except that a form operation given a
  request wrapper whose body is unread leaves that body read, and nothing else of the
  wrapper changed; a wrapper without a body, or with a body already read, is left as it
  is, and on a body already read the form operations raise the error of the body read.
  The result of an operation is the same for two sources that agree on the data the
  operation reads: the key/value pairs for the query-string operations, whatever the
  request of a wrapper; the \<open>params\<close> attribute for the route operations given a
  wrapper, whatever else the wrapper holds; the request, with the state of its body, for
  the form operations given a wrapper, whatever its query string.
\<close>

theorem operations_state_and_inputs:
  "snd (parseSearchParams z src schema) = src
   \<and> snd (parseSearchParamsSafe z src schema) = src
   \<and> snd (parseRouteParams z data schema) = data
   \<and> snd (parseRouteParamsSafe z data schema) = data
   \<and> snd (parseFormData z (FormData fd) schema) = FormData fd
   \<and> snd (parseFormDataSafe z (FormData fd) schema) = FormData fd
   \<and> (body (request ev) = Unread \<longrightarrow>
        snd (parseFormData z (FormEvent ev) schema)
          = FormEvent (ev\<lparr>request := (request ev)\<lparr>body := Read\<rparr>\<rparr>)
      \<and> snd (parseFormDataSafe z (FormEvent ev) schema)
          = FormEvent (ev\<lparr>request := (request ev)\<lparr>body := Read\<rparr>\<rparr>))
   \<and> (body (request ev) \<noteq> Unread \<longrightarrow>
        snd (parseFormData z (FormEvent ev) schema) = FormEvent ev
      \<and> snd (parseFormDataSafe z (FormEvent ev) schema) = FormEvent ev)
   \<and> (body (request ev) = Read \<longrightarrow>
        fst (parseFormData z (FormEvent ev) schema) = Inl (TypeError BodyUnusable)
      \<and> fst (parseFormDataSafe z (FormEvent ev) schema) = Inl (TypeError BodyUnusable))
   \<and> (searchParams_of src = searchParams_of src' \<longrightarrow>
        fst (parseSearchParams z src schema) = fst (parseSearchParams z src' schema)
      \<and> fst (parseSearchParamsSafe z src schema) = fst (parseSearchParamsSafe z src' schema))
   \<and> (instanceofObject (get_prop data ''params'')
        \<and> get_prop data' ''params'' = get_prop data ''params'' \<longrightarrow>
        fst (parseRouteParams z data schema) = fst (parseRouteParams z data' schema)
      \<and> fst (parseRouteParamsSafe z data schema) = fst (parseRouteParamsSafe z data' schema))
   \<and> (request ev = request ev' \<longrightarrow>
        fst (parseFormData z (FormEvent ev) schema) = fst (parseFormData z (FormEvent ev') schema)
      \<and> fst (parseFormDataSafe z (FormEvent ev) schema)
          = fst (parseFormDataSafe z (FormEvent ev') schema))"
proof -
  have s: "snd (getFormData (FormEvent ev))
      = (if body (request ev) = Unread then FormEvent (ev\<lparr>request := (request ev)\<lparr>body := Read\<rparr>\<rparr>)
         else FormEvent ev)"
    by (simp add: getFormData_event formData_def del: getFormData.simps split: body_state.splits)
  have r: "fst (getFormData (FormEvent ev)) = Inl (TypeError BodyUnusable)"
    if "body (request ev) = Read"
    using that by (simp add: getFormData_event formData_def del: getFormData.simps)
  have f: "fst (getFormData (FormEvent ev)) = fst (getFormData (FormEvent ev'))"
    if "request ev = request ev'"
    using that by (simp add: getFormData_event del: getFormData.simps)
  have q: "getSearchParams src = getSearchParams src'"
    if "searchParams_of src = searchParams_of src'"
    using that by (simp add: getSearchParams_def)
  have p: "routeParams data = routeParams data'"
    if "instanceofObject (get_prop data ''params'')"
      and "get_prop data' ''params'' = get_prop data ''params''"
    using that by (simp add: routeParams_def isRequestEvent_def)
  have 1: "snd (parseSearchParams z src schema) = src
      \<and> snd (parseSearchParamsSafe z src schema) = src
      \<and> snd (parseRouteParams z data schema) = data
      \<and> snd (parseRouteParamsSafe z data schema) = data
      \<and> snd (parseFormData z (FormData fd) schema) = FormData fd
      \<and> snd (parseFormDataSafe z (FormData fd) schema) = FormData fd"
    by (simp add: parseSearchParams_def parseSearchParamsSafe_def parseRouteParams_def
        parseRouteParamsSafe_def parseFormData_snd parseFormDataSafe_snd)
  have 2: "body (request ev) = Unread \<longrightarrow>
        snd (parseFormData z (FormEvent ev) schema)
          = FormEvent (ev\<lparr>request := (request ev)\<lparr>body := Read\<rparr>\<rparr>)
      \<and> snd (parseFormDataSafe z (FormEvent ev) schema)
          = FormEvent (ev\<lparr>request := (request ev)\<lparr>body := Read\<rparr>\<rparr>)"
    by (simp add: parseFormData_snd parseFormDataSafe_snd s del: getFormData.simps)
  have 3: "body (request ev) \<noteq> Unread \<longrightarrow>
        snd (parseFormData z (FormEvent ev) schema) = FormEvent ev
      \<and> snd (parseFormDataSafe z (FormEvent ev) schema) = FormEvent ev"
    by (simp add: parseFormData_snd parseFormDataSafe_snd s del: getFormData.simps)
  have 4: "body (request ev) = Read \<longrightarrow>
        fst (parseFormData z (FormEvent ev) schema) = Inl (TypeError BodyUnusable)
      \<and> fst (parseFormDataSafe z (FormEvent ev) schema) = Inl (TypeError BodyUnusable)"
    by (simp add: parseFormData_fst parseFormDataSafe_fst r del: getFormData.simps)
  have 5: "searchParams_of src = searchParams_of src' \<longrightarrow>
        fst (parseSearchParams z src schema) = fst (parseSearchParams z src' schema)
      \<and> fst (parseSearchParamsSafe z src schema) = fst (parseSearchParamsSafe z src' schema)"
  proof
    assume "searchParams_of src = searchParams_of src'"
    then have "getSearchParams src = getSearchParams src'" by (rule q)
    then show "fst (parseSearchParams z src schema) = fst (parseSearchParams z src' schema)
      \<and> fst (parseSearchParamsSafe z src schema) = fst (parseSearchParamsSafe z src' schema)"
      by (simp add: parseSearchParams_def parseSearchParamsSafe_def)
  qed
  have 6: "instanceofObject (get_prop data ''params'')
        \<and> get_prop data' ''params'' = get_prop data ''params'' \<longrightarrow>
        fst (parseRouteParams z data schema) = fst (parseRouteParams z data' schema)
      \<and> fst (parseRouteParamsSafe z data schema) = fst (parseRouteParamsSafe z data' schema)"
  proof
    assume "instanceofObject (get_prop data ''params'')
        \<and> get_prop data' ''params'' = get_prop data ''params''"
    then have "routeParams data = routeParams data'" using p by blast
    then show "fst (parseRouteParams z data schema) = fst (parseRouteParams z data' schema)
      \<and> fst (parseRouteParamsSafe z data schema) = fst (parseRouteParamsSafe z data' schema)"
      by (simp add: parseRouteParams_def parseRouteParamsSafe_def)
  qed
  have 7: "request ev = request ev' \<longrightarrow>
        fst (parseFormData z (FormEvent ev) schema) = fst (parseFormData z (FormEvent ev') schema)
      \<and> fst (parseFormDataSafe z (FormEvent ev) schema)
          = fst (parseFormDataSafe z (FormEvent ev') schema)"
  proof
    assume "request ev = request ev'"
    then have "fst (getFormData (FormEvent ev)) = fst (getFormData (FormEvent ev'))" by (rule f)
    then show "fst (parseFormData z (FormEvent ev) schema) = fst (parseFormData z (FormEvent ev') schema)
      \<and> fst (parseFormDataSafe z (FormEvent ev) schema)
          = fst (parseFormDataSafe z (FormEvent ev') schema)"
      by (simp add: parseFormData_fst parseFormDataSafe_fst del: getFormData.simps)
  qed
  from 1 2 3 4 5 6 7 show ?thesis by blast
qed

theorem operations_state_and_inputs_witness:
  "body (request event_example) = Unread
   \<and> snd (parseFormData z_example (FormEvent event_example) schema_example)
       = FormEvent event_example_read
   \<and> body (request event_example_read) \<noteq> Unread
   \<and> body (request event_example_read) = Read
   \<and> parseFormData z_example (FormEvent event_example_read) schema_example
       = (Inl (TypeError BodyUnusable), FormEvent event_example_read)
   \<and> searchParams_of (SearchEvent event_example)
       = searchParams_of (URLSearchParams [(''a'', ''1''), (''b'', ''test'')])
   \<and> fst (parseSearchParams z_example (SearchEvent event_example) schema_example)
       = fst (parseSearchParams z_example (URLSearchParams [(''a'', ''1''), (''b'', ''test'')])
               schema_example)
   \<and> instanceofObject (get_prop [(''params'', JObj [(''a'', JStr ''1'')]), (''route'', JStr ''r'')] ''params'')
   \<and> fst (parseRouteParams z_example
            [(''params'', JObj [(''a'', JStr ''1'')]), (''route'', JStr ''r'')] schema_example)
       = fst (parseRouteParams z_example [(''params'', JObj [(''a'', JStr ''1'')])] schema_example)
   \<and> request event_example = request (event_example\<lparr>url_searchParams := []\<rparr>)
   \<and> fst (parseFormData z_example (FormEvent event_example) schema_example)
       = fst (parseFormData z_example (FormEvent (event_example\<lparr>url_searchParams := []\<rparr>))
               schema_example)"
proof -
  have h1: "body (request event_example) = Unread" by (simp add: event_example_def)
  have h2: "body (request event_example_read) = Read" by (simp add: event_example_read_def)
  have h3: "searchParams_of (SearchEvent event_example)
       = searchParams_of (URLSearchParams [(''a'', ''1''), (''b'', ''test'')])"
    by (simp add: event_example_def)
  have h4: "instanceofObject
      (get_prop [(''params'', JObj [(''a'', JStr ''1'')]), (''route'', JStr ''r'')] ''params'')"
    by (simp add: get_prop_def)
  have h5: "get_prop [(''params'', JObj [(''a'', JStr ''1'')])] ''params''
      = get_prop [(''params'', JObj [(''a'', JStr ''1'')]), (''route'', JStr ''r'')] ''params''"
    by (simp add: get_prop_def)
  have h6: "request event_example = request (event_example\<lparr>url_searchParams := []\<rparr>)"
    by simp
  have e: "event_example\<lparr>request := (request event_example)\<lparr>body := Read\<rparr>\<rparr> = event_example_read"
    by (simp add: event_example_def event_example_read_def)
  note t1 = operations_state_and_inputs [where z = z_example and schema = schema_example
      and ev = event_example and ev' = "event_example\<lparr>url_searchParams := []\<rparr>"
      and src = "SearchEvent event_example"
      and src' = "URLSearchParams [(''a'', ''1''), (''b'', ''test'')]"
      and data = "[(''params'', JObj [(''a'', JStr ''1'')]), (''route'', JStr ''r'')]"
      and data' = "[(''params'', JObj [(''a'', JStr ''1'')])]" and fd = "[]"]
  note t2 = operations_state_and_inputs [where z = z_example and schema = schema_example
      and ev = event_example_read and ev' = event_example_read
      and src = "SearchEvent event_example" and src' = "SearchEvent event_example"
      and data = "[]" and data' = "[]" and fd = "[]"]
  note u1 = t1 [THEN conjunct2, THEN conjunct2, THEN conjunct2, THEN conjunct2,
      THEN conjunct2, THEN conjunct2]
  note u2 = t2 [THEN conjunct2, THEN conjunct2, THEN conjunct2, THEN conjunct2,
      THEN conjunct2, THEN conjunct2, THEN conjunct2]
  have c1: "snd (parseFormData z_example (FormEvent event_example) schema_example)
       = FormEvent event_example_read"
    using u1 [THEN conjunct1, rule_format, OF h1, THEN conjunct1] by (simp only: e)
  have n2: "body (request event_example_read) \<noteq> Unread" by (simp add: h2)
  have c2a: "snd (parseFormData z_example (FormEvent event_example_read) schema_example)
       = FormEvent event_example_read"
    by (rule u2 [THEN conjunct1, rule_format, OF n2, THEN conjunct1])
  have c2b: "fst (parseFormData z_example (FormEvent event_example_read) schema_example)
       = Inl (TypeError BodyUnusable)"
    by (rule u2 [THEN conjunct2, THEN conjunct1, rule_format, OF h2, THEN conjunct1])
  have c2: "parseFormData z_example (FormEvent event_example_read) schema_example
       = (Inl (TypeError BodyUnusable), FormEvent event_example_read)"
    using c2a c2b by (simp only: prod_eq_iff fst_conv snd_conv)
  note v1 = u1 [THEN conjunct2, THEN conjunct2, THEN conjunct2]
  have c3: "fst (parseSearchParams z_example (SearchEvent event_example) schema_example)
       = fst (parseSearchParams z_example (URLSearchParams [(''a'', ''1''), (''b'', ''test'')])
               schema_example)"
    by (rule v1 [THEN conjunct1, rule_format, OF h3, THEN conjunct1])
  have c4: "fst (parseRouteParams z_example
            [(''params'', JObj [(''a'', JStr ''1'')]), (''route'', JStr ''r'')] schema_example)
       = fst (parseRouteParams z_example [(''params'', JObj [(''a'', JStr ''1'')])] schema_example)"
    by (rule v1 [THEN conjunct2, THEN conjunct1, rule_format, OF conjI, OF h4 h5, THEN conjunct1])
  have c5: "fst (parseFormData z_example (FormEvent event_example) schema_example)
       = fst (parseFormData z_example (FormEvent (event_example\<lparr>url_searchParams := []\<rparr>))
               schema_example)"
    by (rule v1 [THEN conjunct2, THEN conjunct2, rule_format, OF h6, THEN conjunct1])
  show ?thesis
    by (intro conjI) (rule h1 c1 n2 h2 c2 h3 c3 h4 c4 h6 c5)+
qed

end
